theory Spec2Isabelle
  imports Complex_Main
begin

section \<open>JavaScript values and property reads\<close>

text \<open>
  The values the program handles at run time: what \<^verbatim>\<open>response.json()\<close> yields, what
  is handed to \<^verbatim>\<open>JSON.stringify\<close>, and \<^verbatim>\<open>undefined\<close>, which a read of an absent
  property produces. An object is the list of its own properties in insertion order; a
  property is looked up with \<open>map_of\<close>. No property here inspects a number, so a number
  is carried as the real it denotes.
\<close>

datatype js_value =
    JUndefined
  | JNull
  | JBool bool
  | JNumber real
  | JString string
  | JArray "js_value list"
  | JObject "(string \<times> js_value) list"

text \<open>
  What the program can be rejected with. \<open>Error v\<close> is the object built by
  \<^verbatim>\<open>new Error(v)\<close>; for a string \<open>v\<close> its message is \<open>v\<close>. \<open>TypeError v k\<close> is the
  fault the engine raises when property \<open>k\<close> is read from \<open>v\<close>, and \<open>v\<close> is
  \<^verbatim>\<open>undefined\<close> or \<^verbatim>\<open>null\<close>. \<open>HostError d\<close> is a rejection raised by the host
  (\<^verbatim>\<open>fetch\<close>, \<^verbatim>\<open>Response.json\<close>) and described by \<open>d\<close>.
\<close>

datatype js_error =
    Error js_value
  | TypeError js_value string
  | HostError string

type_synonym 'a result = "js_error + 'a"

text \<open>
  \<^verbatim>\<open>v.k\<close> for the names the program reads (\<^verbatim>\<open>choices\<close>, \<^verbatim>\<open>message\<close>,
  \<^verbatim>\<open>content\<close>, \<^verbatim>\<open>error\<close>), none of which is inherited from a built-in prototype:
  a fault on \<^verbatim>\<open>undefined\<close> and \<^verbatim>\<open>null\<close>, the own property of an object,
  \<^verbatim>\<open>undefined\<close> otherwise.
\<close>

fun get_prop :: "js_value \<Rightarrow> string \<Rightarrow> js_value result" where
  "get_prop JUndefined k = Inl (TypeError JUndefined k)"
| "get_prop JNull k = Inl (TypeError JNull k)"
| "get_prop (JObject kvs) k = (case map_of kvs k of None \<Rightarrow> Inr JUndefined | Some v \<Rightarrow> Inr v)"
| "get_prop v k = Inr JUndefined"

text \<open>Decimal digits of a non-negative integer, as a template literal prints it.\<close>

function string_of_nat :: "nat \<Rightarrow> string" where
  "string_of_nat n =
     (if n < 10 then [''0123456789'' ! n]
      else string_of_nat (n div 10) @ [''0123456789'' ! (n mod 10)])"
  by pat_completeness auto
termination
  by (relation "measure id") auto

declare string_of_nat.simps [simp del]

text \<open>
  \<^verbatim>\<open>v[i]\<close>: a fault on \<^verbatim>\<open>undefined\<close> and \<^verbatim>\<open>null\<close>, the element of an array,
  the one-character string of a string, the property named by the digits of \<open>i\<close> of an
  object, and \<^verbatim>\<open>undefined\<close> when there is none.
\<close>

fun get_index :: "js_value \<Rightarrow> nat \<Rightarrow> js_value result" where
  "get_index JUndefined i = Inl (TypeError JUndefined (string_of_nat i))"
| "get_index JNull i = Inl (TypeError JNull (string_of_nat i))"
| "get_index (JArray xs) i = (if i < length xs then Inr (xs ! i) else Inr JUndefined)"
| "get_index (JString s) i = (if i < length s then Inr (JString [s ! i]) else Inr JUndefined)"
| "get_index (JObject kvs) i = get_prop (JObject kvs) (string_of_nat i)"
| "get_index v i = Inr JUndefined"

text \<open>Sequencing of reads: the first fault ends the expression.\<close>

definition and_then :: "'a result \<Rightarrow> ('a \<Rightarrow> 'b result) \<Rightarrow> 'b result" where
  "and_then r f = (case r of Inl e \<Rightarrow> Inl e | Inr v \<Rightarrow> f v)"

section \<open>The transport\<close>

text \<open>
  The argument of \<^verbatim>\<open>fetch\<close>: the address and the options \<^verbatim>\<open>method\<close> (here
  \<open>http_method\<close>), \<^verbatim>\<open>headers\<close> and \<^verbatim>\<open>body\<close>. The body is kept as the value
  handed to \<^verbatim>\<open>JSON.stringify\<close>.
\<close>

datatype http_body = JSON_stringify js_value

record http_request =
  url :: string
  http_method :: string
  headers :: "(string \<times> string) list"
  body :: http_body

text \<open>
  What the program reads of a \<^verbatim>\<open>Response\<close>: the properties \<^verbatim>\<open>ok\<close> and
  \<^verbatim>\<open>status\<close>, and the outcome of awaiting \<^verbatim>\<open>response.json()\<close>, a rejection when
  the body is not JSON.
\<close>

record response =
  ok :: bool
  status :: nat
  json :: "js_value result"

text \<open>A deterministic transport answers a request with a rejection or a response.\<close>

type_synonym transport = "http_request \<Rightarrow> response result"

text \<open>The simulated transport that answers every request with the same response.\<close>

definition respond_with :: "response \<Rightarrow> transport" where
  "respond_with r = (\<lambda>req. Inr r)"

text \<open>The simulated transport that rejects every request.\<close>

definition reject_with :: "js_error \<Rightarrow> transport" where
  "reject_with e = (\<lambda>req. Inl e)"

section \<open>The client\<close>

text \<open>The plugin's settings and their defaults (\<^verbatim>\<open>main.ts\<close>, lines 3 to 14).\<close>

record MyPluginSettings =
  openai_api_key :: string
  initial_prompt :: string
  model :: string

definition DEFAULT_SETTINGS :: MyPluginSettings where
  "DEFAULT_SETTINGS =
     \<lparr>openai_api_key = ''sk-...'',
      initial_prompt = ''you are a helpful and smart assistant. you are given a text and you need to answer the question based on the text.'',
      model = ''gpt-4o-mini''\<rparr>"

text \<open>Class \<^verbatim>\<open>OpenAIAPI\<close>: three private fields, set by the constructor.\<close>

record OpenAIAPI =
  apiKey :: string
  model :: string
  initialPrompt :: string

definition OpenAIAPI_constructor :: "string \<Rightarrow> string \<Rightarrow> string \<Rightarrow> OpenAIAPI" where
  "OpenAIAPI_constructor k m p = \<lparr>apiKey = k, model = m, initialPrompt = p\<rparr>"

text \<open>
  The client the dialog builds from the settings in its constructor
  (\<^verbatim>\<open>main.ts\<close>, lines 104 to 108).
\<close>

definition AskLLMModal_openai :: "MyPluginSettings \<Rightarrow> OpenAIAPI" where
  "AskLLMModal_openai settings =
     OpenAIAPI_constructor (openai_api_key settings) (MyPluginSettings.model settings)
       (initial_prompt settings)"

text \<open>
  What a call can touch: the client object and the network, the latter as the list of
  requests issued so far.
\<close>

record world =
  client :: OpenAIAPI
  sent :: "http_request list"

text \<open>The object literal serialised into the body (\<^verbatim>\<open>main.ts\<close>, lines 63 to 79).\<close>

definition request_object :: "OpenAIAPI \<Rightarrow> string \<Rightarrow> string \<Rightarrow> js_value" where
  "request_object this context question =
     JObject [
       (''model'', JString (model this)),
       (''messages'', JArray [
          JObject [(''role'', JString ''system''), (''content'', JString (initialPrompt this))],
          JObject [(''role'', JString ''system''), (''content'', JString (''context: '' @ context))],
          JObject [(''role'', JString ''user''), (''content'', JString question)]])]"

text \<open>The argument of \<^verbatim>\<open>fetch\<close> (\<^verbatim>\<open>main.ts\<close>, lines 57 to 80).\<close>

definition fetch_request :: "OpenAIAPI \<Rightarrow> string \<Rightarrow> string \<Rightarrow> http_request" where
  "fetch_request this context question =
     \<lparr>url = ''https://api.openai.com/v1/chat/completions'',
      http_method = ''POST'',
      headers = [(''Content-Type'', ''application/json''),
                 (''Authorization'', ''Bearer '' @ apiKey this)],
      body = JSON_stringify (request_object this context question)\<rparr>"

text \<open>
  The branch for \<^verbatim>\<open>!response.ok\<close> (\<^verbatim>\<open>main.ts\<close>, lines 82 to 90): a rejection of
  \<^verbatim>\<open>response.json()\<close> is caught and replaced; the reads of \<^verbatim>\<open>errorData.error.message\<close>
  are outside the \<^verbatim>\<open>try\<close>. The branch always throws.
\<close>

definition error_branch :: "response \<Rightarrow> js_error" where
  "error_branch response =
     (case json response of
        Inl e \<Rightarrow> Error (JString (''HTTP error! status: '' @ string_of_nat (status response)))
      | Inr errorData \<Rightarrow>
          (case and_then (get_prop errorData ''error'') (\<lambda>err. get_prop err ''message'') of
             Inl fault \<Rightarrow> fault
           | Inr msg \<Rightarrow> Error msg))"

text \<open>
  The success branch (\<^verbatim>\<open>main.ts\<close>, lines 92 to 93): a rejection of
  \<^verbatim>\<open>response.json()\<close> propagates, then \<^verbatim>\<open>data.choices[0].message.content\<close> is read
  and returned as it is.
\<close>

definition success_branch :: "response \<Rightarrow> js_value result" where
  "success_branch response =
     and_then (json response) (\<lambda>data.
     and_then (get_prop data ''choices'') (\<lambda>choices.
     and_then (get_index choices 0) (\<lambda>choice.
     and_then (get_prop choice ''message'') (\<lambda>message.
     get_prop message ''content''))))"

text \<open>
  \<^verbatim>\<open>OpenAIAPI.query\<close> of \<^verbatim>\<open>main.ts\<close>. The call of \<^verbatim>\<open>fetch\<close> adds the request to
  the network's list; a rejection of \<^verbatim>\<open>fetch\<close> propagates. The outcome is the value
  the promise resolves with, or what it is rejected with.
\<close>

definition query :: "transport \<Rightarrow> string \<Rightarrow> string \<Rightarrow> world \<Rightarrow> js_value result \<times> world" where
  "query fetch context question w =
     (let req = fetch_request (client w) context question;
          w' = w\<lparr>sent := sent w @ [req]\<rparr>
      in case fetch req of
           Inl e \<Rightarrow> (Inl e, w')
         | Inr response \<Rightarrow>
             if \<not> ok response then (Inl (error_branch response), w')
             else (success_branch response, w'))"

text \<open>A world with the client of the default settings and no request issued yet.\<close>

definition default_world :: world where
  "default_world = \<lparr>client = AskLLMModal_openai DEFAULT_SETTINGS, sent = []\<rparr>"

section \<open>The second variant of the plugin\<close>

text \<open>
  The other source file of the repository holds the same class \<^verbatim>\<open>OpenAIAPI\<close>, at
  lines 46 to 96; its dialog renders the answer as markdown. Its \<^verbatim>\<open>query\<close> is
  translated here on its own, line by line, with the suffix \<open>_md\<close>.
\<close>

definition request_object_md :: "OpenAIAPI \<Rightarrow> string \<Rightarrow> string \<Rightarrow> js_value" where
  "request_object_md this context question =
     JObject [
       (''model'', JString (model this)),
       (''messages'', JArray [
          JObject [(''role'', JString ''system''), (''content'', JString (initialPrompt this))],
          JObject [(''role'', JString ''system''), (''content'', JString (''context: '' @ context))],
          JObject [(''role'', JString ''user''), (''content'', JString question)]])]"

definition fetch_request_md :: "OpenAIAPI \<Rightarrow> string \<Rightarrow> string \<Rightarrow> http_request" where
  "fetch_request_md this context question =
     \<lparr>url = ''https://api.openai.com/v1/chat/completions'',
      http_method = ''POST'',
      headers = [(''Content-Type'', ''application/json''),
                 (''Authorization'', ''Bearer '' @ apiKey this)],
      body = JSON_stringify (request_object_md this context question)\<rparr>"

definition error_branch_md :: "response \<Rightarrow> js_error" where
  "error_branch_md response =
     (case json response of
        Inl e \<Rightarrow> Error (JString (''HTTP error! status: '' @ string_of_nat (status response)))
      | Inr errorData \<Rightarrow>
          (case and_then (get_prop errorData ''error'') (\<lambda>err. get_prop err ''message'') of
             Inl fault \<Rightarrow> fault
           | Inr msg \<Rightarrow> Error msg))"

definition success_branch_md :: "response \<Rightarrow> js_value result" where
  "success_branch_md response =
     and_then (json response) (\<lambda>data.
     and_then (get_prop data ''choices'') (\<lambda>choices.
     and_then (get_index choices 0) (\<lambda>choice.
     and_then (get_prop choice ''message'') (\<lambda>message.
     get_prop message ''content''))))"

definition query_md :: "transport \<Rightarrow> string \<Rightarrow> string \<Rightarrow> world \<Rightarrow> js_value result \<times> world" where
  "query_md fetch context question w =
     (let req = fetch_request_md (client w) context question;
          w' = w\<lparr>sent := sent w @ [req]\<rparr>
      in case fetch req of
           Inl e \<Rightarrow> (Inl e, w')
         | Inr response \<Rightarrow>
             if \<not> ok response then (Inl (error_branch_md response), w')
             else (success_branch_md response, w'))"

section \<open>Outcome and effect of a call\<close>

text \<open>The outcome of a call is decided by the transport's answer to its one request.\<close>

lemma query_outcome:
  "fst (query fetch context question w) =
     (case fetch (fetch_request (client w) context question) of
        Inl e \<Rightarrow> Inl e
      | Inr response \<Rightarrow>
          if ok response then success_branch response else Inl (error_branch response))"
  by (simp add: query_def Let_def split: sum.split)

text \<open>The world after a call: the request is added to the network's list.\<close>

lemma query_world:
  "snd (query fetch context question w) =
     w\<lparr>sent := sent w @ [fetch_request (client w) context question]\<rparr>"
  by (simp add: query_def Let_def split: sum.split)

lemma query_respond_with:
  "fst (query (respond_with r) context question w) =
     (if ok r then success_branch r else Inl (error_branch r))"
  by (simp add: query_outcome respond_with_def)

lemma string_of_nat_500: "string_of_nat 500 = ''500''"
  by (simp add: string_of_nat.simps)

section \<open>Answer extraction\<close>

text \<open>
  C3. For every success response whose body is a JSON object with a \<^verbatim>\<open>choices\<close>
  array whose first element is an object with a \<^verbatim>\<open>message\<close> object holding
  \<^verbatim>\<open>content\<close>, \<open>query\<close> resolves with that content, whatever the later choices
  are. For the body \<^verbatim>\<open>{"choices":[{"message":{"content":"42"}}]}\<close> it resolves with the
  string \<^verbatim>\<open>"42"\<close>.
\<close>

theorem query_returns_first_choice_content:
  assumes "fetch (fetch_request (client w) context question) = Inr r"
    and "ok r"
    and "json r = Inr (JObject kvs)"
    and "map_of kvs ''choices'' = Some (JArray (JObject cs # rest))"
    and "map_of cs ''message'' = Some (JObject ms)"
    and "map_of ms ''content'' = Some c"
  shows "fst (query fetch context question w) = Inr c"
proof -
  have "get_prop (JObject kvs) ''choices'' = Inr (JArray (JObject cs # rest))"
    using assms(4) by simp
  moreover have "get_index (JArray (JObject cs # rest)) 0 = Inr (JObject cs)"
    by simp
  moreover have "get_prop (JObject cs) ''message'' = Inr (JObject ms)"
    using assms(5) by simp
  moreover have "get_prop (JObject ms) ''content'' = Inr c"
    using assms(6) by simp
  ultimately have "success_branch r = Inr c"
    using assms(3) by (simp add: success_branch_def and_then_def)
  with assms(1,2) show ?thesis
    by (simp add: query_outcome)
qed

theorem query_returns_first_choice_content_witness:
  "fst (query
     (respond_with \<lparr>ok = True, status = 200,
        json = Inr (JObject [(''choices'',
                 JArray [JObject [(''message'', JObject [(''content'', JString ''42'')])]])])\<rparr>)
     ''note'' ''why'' default_world) = Inr (JString ''42'')
   \<and> fst (query
     (respond_with \<lparr>ok = True, status = 200,
        json = Inr (JObject [(''id'', JString ''chatcmpl-1''), (''choices'',
                 JArray [JObject [(''index'', JNumber 0),
                                  (''message'', JObject [(''role'', JString ''assistant''),
                                                         (''content'', JString ''Paris'')])],
                         JObject [(''message'', JObject [(''content'', JString ''Rome'')])]])])\<rparr>)
     ''note'' ''why'' default_world) = Inr (JString ''Paris'')"
proof -
  let ?r1 = "\<lparr>ok = True, status = 200,
        json = Inr (JObject [(''choices'',
                 JArray [JObject [(''message'', JObject [(''content'', JString ''42'')])]])])\<rparr>"
  let ?r2 = "\<lparr>ok = True, status = 200,
        json = Inr (JObject [(''id'', JString ''chatcmpl-1''), (''choices'',
                 JArray [JObject [(''index'', JNumber 0),
                                  (''message'', JObject [(''role'', JString ''assistant''),
                                                         (''content'', JString ''Paris'')])],
                         JObject [(''message'', JObject [(''content'', JString ''Rome'')])]])])\<rparr>"
  note query_returns_first_choice_content [of "respond_with ?r1" default_world "''note''" "''why''" ?r1
      "[(''choices'', JArray [JObject [(''message'', JObject [(''content'', JString ''42'')])]])]"
      "[(''message'', JObject [(''content'', JString ''42'')])]" "[]"
      "[(''content'', JString ''42'')]" "JString ''42''"]
    query_returns_first_choice_content [of "respond_with ?r2" default_world "''note''" "''why''" ?r2
      "[(''id'', JString ''chatcmpl-1''), (''choices'',
                 JArray [JObject [(''index'', JNumber 0),
                                  (''message'', JObject [(''role'', JString ''assistant''),
                                                         (''content'', JString ''Paris'')])],
                         JObject [(''message'', JObject [(''content'', JString ''Rome'')])]])]"
      "[(''index'', JNumber 0),
        (''message'', JObject [(''role'', JString ''assistant''), (''content'', JString ''Paris'')])]"
      "[JObject [(''message'', JObject [(''content'', JString ''Rome'')])]]"
      "[(''role'', JString ''assistant''), (''content'', JString ''Paris'')]" "JString ''Paris''"]
  then show ?thesis
    by (simp add: respond_with_def)
qed

text \<open>
  C1. For a success response whose body is a JSON object, \<open>query\<close> is
  rejected with the fault of a property read on \<^verbatim>\<open>undefined\<close> when \<^verbatim>\<open>choices\<close> is
  missing (the read of index 0 faults), when \<^verbatim>\<open>choices\<close> is an empty array (the read
  of \<^verbatim>\<open>message\<close> faults) and when the first choice is an object without
  \<^verbatim>\<open>message\<close> (the read of \<^verbatim>\<open>content\<close> faults). When only \<^verbatim>\<open>content\<close> is
  missing nothing faults: the call resolves with \<^verbatim>\<open>undefined\<close>.
\<close>

theorem query_malformed_success:
  assumes "fetch (fetch_request (client w) context question) = Inr r"
    and "ok r"
    and "json r = Inr (JObject kvs)"
  shows "(map_of kvs ''choices'' = None \<longrightarrow>
            fst (query fetch context question w) = Inl (TypeError JUndefined ''0''))
       \<and> (map_of kvs ''choices'' = Some (JArray []) \<longrightarrow>
            fst (query fetch context question w) = Inl (TypeError JUndefined ''message''))
       \<and> (map_of kvs ''choices'' = Some (JArray (JObject cs # rest)) \<and>
          map_of cs ''message'' = None \<longrightarrow>
            fst (query fetch context question w) = Inl (TypeError JUndefined ''content''))
       \<and> (map_of kvs ''choices'' = Some (JArray (JObject cs # rest)) \<and>
          map_of cs ''message'' = Some (JObject ms) \<and> map_of ms ''content'' = None \<longrightarrow>
            fst (query fetch context question w) = Inr JUndefined)"
proof -
  have outcome: "fst (query fetch context question w) = success_branch r"
    using assms(1,2) by (simp add: query_outcome)
  have no_choices: "success_branch r = Inl (TypeError JUndefined ''0'')"
    if "map_of kvs ''choices'' = None"
    using that assms(3) by (simp add: success_branch_def and_then_def string_of_nat.simps)
  have no_choice: "success_branch r = Inl (TypeError JUndefined ''message'')"
    if "map_of kvs ''choices'' = Some (JArray [])"
    using that assms(3) by (simp add: success_branch_def and_then_def)
  have no_message: "success_branch r = Inl (TypeError JUndefined ''content'')"
    if "map_of kvs ''choices'' = Some (JArray (JObject cs # rest))"
      and "map_of cs ''message'' = None"
    using that assms(3) by (simp add: success_branch_def and_then_def)
  have no_content: "success_branch r = Inr JUndefined"
    if "map_of kvs ''choices'' = Some (JArray (JObject cs # rest))"
      and "map_of cs ''message'' = Some (JObject ms)"
      and "map_of ms ''content'' = None"
    using that assms(3) by (simp add: success_branch_def and_then_def)
  show ?thesis
    unfolding outcome using no_choices no_choice no_message no_content by blast
qed

theorem query_malformed_success_witness:
  "fst (query (respond_with \<lparr>ok = True, status = 200, json = Inr (JObject [])\<rparr>)
         ''note'' ''why'' default_world) = Inl (TypeError JUndefined ''0'')
   \<and> fst (query (respond_with \<lparr>ok = True, status = 200,
                 json = Inr (JObject [(''choices'', JArray [])])\<rparr>)
         ''note'' ''why'' default_world) = Inl (TypeError JUndefined ''message'')
   \<and> fst (query (respond_with \<lparr>ok = True, status = 200,
                 json = Inr (JObject [(''choices'', JArray [JObject [(''index'', JNumber 0)]])])\<rparr>)
         ''note'' ''why'' default_world) = Inl (TypeError JUndefined ''content'')
   \<and> fst (query (respond_with \<lparr>ok = True, status = 200,
                 json = Inr (JObject [(''choices'',
                          JArray [JObject [(''message'', JObject [(''role'', JString ''assistant'')])]])])\<rparr>)
         ''note'' ''why'' default_world) = Inr JUndefined"
proof -
  let ?r1 = "\<lparr>ok = True, status = 200, json = Inr (JObject [])\<rparr>"
  let ?r2 = "\<lparr>ok = True, status = 200, json = Inr (JObject [(''choices'', JArray [])])\<rparr>"
  let ?r3 = "\<lparr>ok = True, status = 200,
               json = Inr (JObject [(''choices'', JArray [JObject [(''index'', JNumber 0)]])])\<rparr>"
  let ?r4 = "\<lparr>ok = True, status = 200,
               json = Inr (JObject [(''choices'',
                        JArray [JObject [(''message'', JObject [(''role'', JString ''assistant'')])]])])\<rparr>"
  note query_malformed_success [of "respond_with ?r1" default_world "''note''" "''why''" ?r1
      "[]" "[]" "[]" "[]"]
    query_malformed_success [of "respond_with ?r2" default_world "''note''" "''why''" ?r2
      "[(''choices'', JArray [])]" "[]" "[]" "[]"]
    query_malformed_success [of "respond_with ?r3" default_world "''note''" "''why''" ?r3
      "[(''choices'', JArray [JObject [(''index'', JNumber 0)]])]"
      "[(''index'', JNumber 0)]" "[]" "[]"]
    query_malformed_success [of "respond_with ?r4" default_world "''note''" "''why''" ?r4
      "[(''choices'', JArray [JObject [(''message'', JObject [(''role'', JString ''assistant'')])]])]"
      "[(''message'', JObject [(''role'', JString ''assistant'')])]" "[]"
      "[(''role'', JString ''assistant'')]"]
  then show ?thesis
    by (simp add: respond_with_def)
qed

text \<open>
  A success body can lack the expected shape without any fault: for
  \<^verbatim>\<open>{"choices":[{"message":{}}]}\<close>, where only \<^verbatim>\<open>content\<close> is missing, the call is
  not rejected; it resolves with \<^verbatim>\<open>undefined\<close>.
\<close>

theorem query_missing_content_resolves:
  "fst (query (respond_with \<lparr>ok = True, status = 200,
                 json = Inr (JObject [(''choices'', JArray [JObject [(''message'', JObject [])]])])\<rparr>)
         ''note'' ''why'' default_world) = Inr JUndefined"
  by (simp add: query_respond_with success_branch_def and_then_def)

section \<open>The request\<close>

text \<open>
  C2. Whatever the context, the question and the configuration, the body of the request
  that \<open>query\<close> issues is the serialisation of an object whose \<^verbatim>\<open>model\<close> is the
  configured model and whose \<^verbatim>\<open>messages\<close> are exactly three, in this order: the
  system prompt with role system, \<^verbatim>\<open>"context: "\<close> followed by the context with role
  system, and the question with role user. Empty strings are passed through as they are.
\<close>

theorem query_request_messages:
  "body (last (sent (snd (query fetch context question w)))) =
     JSON_stringify (request_object (client w) context question)
   \<and> get_prop (request_object this context question) ''model'' = Inr (JString (model this))
   \<and> get_prop (request_object this context question) ''messages'' =
       Inr (JArray [
         JObject [(''role'', JString ''system''), (''content'', JString (initialPrompt this))],
         JObject [(''role'', JString ''system''), (''content'', JString (''context: '' @ context))],
         JObject [(''role'', JString ''user''), (''content'', JString question)]])
   \<and> get_prop (request_object this [] []) ''messages'' =
       Inr (JArray [
         JObject [(''role'', JString ''system''), (''content'', JString (initialPrompt this))],
         JObject [(''role'', JString ''system''), (''content'', JString ''context: '')],
         JObject [(''role'', JString ''user''), (''content'', JString [])]])"
proof -
  have "body (last (sent (snd (query fetch context question w)))) =
          body (fetch_request (client w) context question)"
    by (simp add: query_world)
  then have sent_body: "body (last (sent (snd (query fetch context question w)))) =
      JSON_stringify (request_object (client w) context question)"
    by (simp add: fetch_request_def)
  have fields: "get_prop (request_object this c q) ''model'' = Inr (JString (model this))"
    "get_prop (request_object this c q) ''messages'' =
       Inr (JArray [
         JObject [(''role'', JString ''system''), (''content'', JString (initialPrompt this))],
         JObject [(''role'', JString ''system''), (''content'', JString (''context: '' @ c))],
         JObject [(''role'', JString ''user''), (''content'', JString q)]])" for c q
    by (simp_all add: request_object_def)
  from sent_body fields [of "context" question] fields(2) [of "[]" "[]"]
  show ?thesis by simp
qed

text \<open>
  C7. Every call of \<open>query\<close> issues exactly one request: a POST to the chat-completion
  endpoint over HTTPS, with the headers \<^verbatim>\<open>Content-Type: application/json\<close> and
  \<^verbatim>\<open>Authorization: Bearer\<close> followed by the credential, and with the serialised
  request object as its body.
\<close>

theorem query_issues_one_post:
  "sent (snd (query fetch context question w)) =
     sent w @
     [\<lparr>url = ''https://api.openai.com/v1/chat/completions'',
       http_method = ''POST'',
       headers = [(''Content-Type'', ''application/json''),
                  (''Authorization'', ''Bearer '' @ apiKey (client w))],
       body = JSON_stringify (request_object (client w) context question)\<rparr>]"
  by (simp add: query_world fetch_request_def)

section \<open>Failure responses\<close>

text \<open>
  C4. For a response that is not ok whose body parses as a JSON object with an
  \<^verbatim>\<open>error\<close> object holding a \<^verbatim>\<open>message\<close> string, \<open>query\<close> is rejected with an
  \<^verbatim>\<open>Error\<close> whose message is that string.
\<close>

theorem query_provider_error:
  assumes "fetch (fetch_request (client w) context question) = Inr r"
    and "\<not> ok r"
    and "json r = Inr (JObject kvs)"
    and "map_of kvs ''error'' = Some (JObject es)"
    and "map_of es ''message'' = Some (JString m)"
  shows "fst (query fetch context question w) = Inl (Error (JString m))"
proof -
  have "error_branch r = Error (JString m)"
    using assms(3-5) by (simp add: error_branch_def and_then_def)
  with assms(1,2) show ?thesis
    by (simp add: query_outcome)
qed

theorem query_provider_error_witness:
  "fst (query
     (respond_with \<lparr>ok = False, status = 401,
        json = Inr (JObject [(''error'', JObject [(''message'', JString ''invalid_api_key'')])])\<rparr>)
     ''note'' ''why'' default_world) = Inl (Error (JString ''invalid_api_key''))"
proof -
  let ?r = "\<lparr>ok = False, status = 401,
     json = Inr (JObject [(''error'', JObject [(''message'', JString ''invalid_api_key'')])])\<rparr>"
  have sent: "respond_with ?r (fetch_request (client default_world) ''note'' ''why'') = Inr ?r"
    by (simp add: respond_with_def)
  have "\<not> ok ?r"
    and "json ?r = Inr (JObject [(''error'', JObject [(''message'', JString ''invalid_api_key'')])])"
    and "map_of [(''error'', JObject [(''message'', JString ''invalid_api_key'')])] ''error'' =
           Some (JObject [(''message'', JString ''invalid_api_key'')])"
    and "map_of [(''message'', JString ''invalid_api_key'')] ''message'' =
           Some (JString ''invalid_api_key'')"
    by simp_all
  with sent show ?thesis
    by (rule query_provider_error)
qed

text \<open>
  C5. For a response that is not ok whose body does not parse as JSON, \<open>query\<close> is
  rejected with an \<^verbatim>\<open>Error\<close> whose message is \<^verbatim>\<open>"HTTP error! status: "\<close> followed by
  the digits of the status code; with status 500 the message ends in \<^verbatim>\<open>500\<close>.
\<close>

theorem query_opaque_error:
  assumes "fetch (fetch_request (client w) context question) = Inr r"
    and "\<not> ok r"
    and "json r = Inl e"
  shows "fst (query fetch context question w) =
           Inl (Error (JString (''HTTP error! status: '' @ string_of_nat (status r))))"
  using assms by (simp add: query_outcome error_branch_def)

theorem query_opaque_error_witness:
  "fst (query
     (respond_with \<lparr>ok = False, status = 500, json = Inl (HostError ''SyntaxError'')\<rparr>)
     ''note'' ''why'' default_world) = Inl (Error (JString ''HTTP error! status: 500''))"
  using query_opaque_error [of
      "respond_with \<lparr>ok = False, status = 500, json = Inl (HostError ''SyntaxError'')\<rparr>"
      default_world "''note''" "''why''"
      "\<lparr>ok = False, status = 500, json = Inl (HostError ''SyntaxError'')\<rparr>"
      "HostError ''SyntaxError''"]
  by (simp add: respond_with_def string_of_nat_500)

text \<open>
  C10. There is a response that is not ok and whose body is JSON without an
  \<^verbatim>\<open>error\<close> object, \<^verbatim>\<open>{"status":"down"}\<close>, for which \<open>query\<close> is rejected neither
  with the provider's message nor with the status code: the read of \<^verbatim>\<open>message\<close> from
  the missing \<^verbatim>\<open>error\<close> faults, and that fault is the outcome.
\<close>

theorem query_error_body_without_error_object:
  "fst (query
     (respond_with \<lparr>ok = False, status = 503,
        json = Inr (JObject [(''status'', JString ''down'')])\<rparr>)
     context question w) = Inl (TypeError JUndefined ''message'')"
  by (simp add: query_respond_with error_branch_def and_then_def)

section \<open>State\<close>

text \<open>
  C6. A second call with the same context and question against the same transport, made
  in the world the first call left, has the outcome of the first; and the outcome does
  not depend on the requests issued before, only on the client, the inputs and the
  transport.
\<close>

theorem query_twice_same_outcome:
  "fst (query fetch context question (snd (query fetch context question w))) =
     fst (query fetch context question w)
   \<and> fst (query fetch context question (w\<lparr>sent := earlier\<rparr>)) =
     fst (query fetch context question w)"
  by (simp add: query_outcome query_world)

text \<open>
  C8. The constructor stores the credential, the model and the system prompt, and no
  call of \<open>query\<close> changes the client, whatever the transport answers.
\<close>

theorem query_keeps_client:
  "client (snd (query fetch context question w)) = client w
   \<and> apiKey (OpenAIAPI_constructor k m p) = k
   \<and> model (OpenAIAPI_constructor k m p) = m
   \<and> initialPrompt (OpenAIAPI_constructor k m p) = p
   \<and> client (snd (query (reject_with e) context question w)) = client w"
  by (simp add: query_world OpenAIAPI_constructor_def)

section \<open>The two variants\<close>

lemma request_object_md_eq: "request_object_md = request_object"
  by (intro ext) (simp add: request_object_md_def request_object_def)

lemma fetch_request_md_eq: "fetch_request_md = fetch_request"
  by (intro ext) (simp add: fetch_request_md_def fetch_request_def request_object_md_eq)

lemma error_branch_md_eq: "error_branch_md = error_branch"
  by (intro ext) (simp add: error_branch_md_def error_branch_def)

lemma success_branch_md_eq: "success_branch_md = success_branch"
  by (intro ext) (simp add: success_branch_md_def success_branch_def)

text \<open>
  C9. The \<open>query\<close> of the two variants is the same function: for every transport, every
  input and every world, both give the same outcome and leave the same world.
\<close>

theorem query_md_eq_query:
  "query_md fetch context question w = query fetch context question w"
  unfolding query_md_def query_def
  by (simp only: fetch_request_md_eq error_branch_md_eq success_branch_md_eq)

end
